theory Spec2Isabelle
  imports Complex_Main
begin

section \<open>JavaScript values and outcomes of asynchronous calls\<close>

text \<open>
  The player is a React component around the browser's audio element. Its handlers are
  modelled as functions on an explicit component instance: the React state, the two refs
  (\<open>audioRef\<close>, \<open>progressIntervalRef\<close>) and the part of the browser the handlers act
  on (interval timers, object URLs, network requests, calls on the media element).
  Every handler runs to completion; what the network or the media element answers to an
  awaited call is an argument of the handler. Times are real numbers.
\<close>

datatype jsval = JUndefined | JNull | JBool bool | JNum real | JNaN | JStr string

text \<open>\<open>parseFloat\<close>: the identity on a number; on a string it is the browser's
  decimal parser, taken as the parameter \<open>pf\<close>; \<open>None\<close> is NaN.\<close>

fun parseFloat :: "(string \<Rightarrow> real option) \<Rightarrow> jsval \<Rightarrow> real option" where
  "parseFloat pf (JNum r) = Some r"
| "parseFloat pf (JStr s) = pf s"
| "parseFloat pf v = None"

text \<open>A string is truthy when it is not empty.\<close>

definition truthy_str :: "string \<Rightarrow> bool" where
  "truthy_str s = (s \<noteq> [])"

text \<open>What a \<open>fetch\<close> gives: the promise rejects, or a response arrives with a status
  and a body whose reading (\<open>json()\<close>, \<open>text()\<close>, \<open>blob()\<close>) succeeds or rejects.\<close>

datatype 'a body = BodyRejected | Body 'a

datatype 'a fetch_outcome = FetchRejected | Responded nat "'a body"

text \<open>\<open>response.ok\<close>\<close>

definition ok :: "nat \<Rightarrow> bool" where
  "ok code = (200 \<le> code \<and> code \<le> 299)"

text \<open>The result of a handler that may throw: the instance is kept in both cases.\<close>

datatype 'a result = Returned 'a | Threw string 'a

fun settled :: "'a result \<Rightarrow> 'a" where
  "settled (Returned x) = x"
| "settled (Threw e x) = x"

section \<open>The data model of the player\<close>

text \<open>The progress record of the backend, \<open>data.progress\<close>, as it arrives in JSON.\<close>

record progress_record =
  position :: jsval
  completion_percentage :: jsval
  is_finished :: jsval
  playback_speed :: jsval

datatype callback = CbReturns | CbThrows

record props =
  apiBaseUrl :: string
  authToken :: "string option"
  onProgressUpdate :: "callback option"
  autoPlay :: bool
  showDownload :: bool
  showBookmark :: bool

text \<open>The \<open>useState\<close> cells of \<open>AudioPlayer\<close>.\<close>

record player_state =
  isPlaying :: bool
  isLoading :: bool
  duration :: real
  currentTime :: real
  volume :: real
  playbackRate :: real
  error :: "string option"
  resumeAvailable :: bool
  resumePosition :: "real option"
  showStartOver :: bool
  completionPercentage :: real

datatype source = NoSrc | DirectURL string | ObjectURL nat

text \<open>The closure that \<open>handleResume\<close> installs as \<open>onloadedmetadata\<close>; it captures
  \<open>resumePosition\<close>.\<close>

datatype handler = ResumeOnMetadata "real option"

text \<open>The audio element. \<open>el_currentTime\<close> holds the value last assigned to the
  element's position; how the element itself treats an assignment beyond its media is
  the browser's business and not part of the component.\<close>

record audio_element =
  src :: source
  el_currentTime :: real
  el_duration :: real
  paused :: bool
  onloadedmetadata :: "handler option"

datatype media_op =
  SetSrc source | SetCurrentTime real | CallPlay | CallPause | LoadedMetadata

record request =
  req_method :: string
  req_url :: string
  req_bearer :: "string option"
  req_position :: "int option"
  req_status :: "string option"
  req_playback_speed :: "real option"

text \<open>The browser: live interval handles, the last handle given out, the object URLs
  created and the calls of \<open>URL.revokeObjectURL\<close>, the requests sent, and the calls
  and events on the media element in the order they happened.\<close>

record browser =
  intervals :: "nat list"
  lastHandle :: nat
  createdURLs :: "nat list"
  revokeCalls :: "nat list"
  requests :: "request list"
  mediaLog :: "media_op list"

record component =
  props :: props
  state :: player_state
  audioRef :: "audio_element option"
  progressIntervalRef :: "nat option"
  browser :: browser
  progressCalls :: "(real \<times> string \<times> real) list"

subsection \<open>Browser primitives\<close>

text \<open>\<open>setInterval\<close> returns a handle greater than zero that was never given before.\<close>

definition setInterval :: "browser \<Rightarrow> nat \<times> browser" where
  "setInterval b =
     (let h = Suc (lastHandle b)
      in (h, b\<lparr>intervals := intervals b @ [h], lastHandle := h\<rparr>))"

definition clearInterval :: "nat \<Rightarrow> browser \<Rightarrow> browser" where
  "clearInterval h b = b\<lparr>intervals := removeAll h (intervals b)\<rparr>"


definition send :: "request \<Rightarrow> browser \<Rightarrow> browser" where
  "send r b = b\<lparr>requests := requests b @ [r]\<rparr>"

definition logMedia :: "media_op \<Rightarrow> browser \<Rightarrow> browser" where
  "logMedia op b = b\<lparr>mediaLog := mediaLog b @ [op]\<rparr>"

text \<open>A ref holding a timer handle is truthy when it is set and not zero.\<close>

fun truthy_handle :: "nat option \<Rightarrow> bool" where
  "truthy_handle None = False"
| "truthy_handle (Some h) = (h \<noteq> 0)"


subsection \<open>Props and endpoints\<close>

definition has_token :: "props \<Rightarrow> bool" where
  "has_token pr = (case authToken pr of None \<Rightarrow> False | Some t \<Rightarrow> truthy_str t)"

text \<open>The book id is hard coded: \<open>BOOK_ID = 2\<close>.\<close>

definition BOOK_ID :: string where
  "BOOK_ID = ''2''"


definition getProgressUrl :: "props \<Rightarrow> string" where
  "getProgressUrl pr = apiBaseUrl pr @ ''/audioStreaming/books/'' @ BOOK_ID @ ''/progress''"

definition get_request :: "string \<Rightarrow> string option \<Rightarrow> request" where
  "get_request url tok =
     \<lparr>req_method = ''GET'', req_url = url, req_bearer = tok,
      req_position = None, req_status = None, req_playback_speed = None\<rparr>"

definition post_progress :: "string \<Rightarrow> string option \<Rightarrow> real \<Rightarrow> string \<Rightarrow> real \<Rightarrow> request" where
  "post_progress url tok pos status rate =
     \<lparr>req_method = ''POST'', req_url = url, req_bearer = tok,
      req_position = Some \<lfloor>pos\<rfloor>, req_status = Some status, req_playback_speed = Some rate\<rparr>"

text \<open>The instance right after the first render: the \<open>useState\<close> defaults, the audio
  element attached to \<open>audioRef\<close>, no timer.\<close>

definition initial_state :: player_state where
  "initial_state =
     \<lparr>isPlaying = False, isLoading = False, duration = 0, currentTime = 0, volume = 1,
      playbackRate = 1, error = None, resumeAvailable = False, resumePosition = None,
      showStartOver = False, completionPercentage = 0\<rparr>"

definition fresh_audio :: audio_element where
  "fresh_audio =
     \<lparr>src = NoSrc, el_currentTime = 0, el_duration = 0, paused = True, onloadedmetadata = None\<rparr>"

definition mounted :: "props \<Rightarrow> browser \<Rightarrow> component" where
  "mounted pr b =
     \<lparr>props = pr, state = initial_state, audioRef = Some fresh_audio,
      progressIntervalRef = None, browser = b, progressCalls = []\<rparr>"

definition fresh_browser :: browser where
  "fresh_browser =
     \<lparr>intervals = [], lastHandle = 0, createdURLs = [], revokeCalls = [], requests = [],
      mediaLog = []\<rparr>"

section \<open>Progress tracking: \<open>updateProgress\<close>\<close>

text \<open>The body of the \<open>try\<close> block: the POST is sent; a rejected \<open>fetch\<close>, a body
  that cannot be read and a throwing \<open>onProgressUpdate\<close> callback all throw.\<close>

definition updateProgress_try ::
  "component \<Rightarrow> real \<Rightarrow> string \<Rightarrow> unit fetch_outcome \<Rightarrow> component result" where
  "updateProgress_try c pos status out =
     (let pr = props c;
          rate = playbackRate (state c);
          c1 = c\<lparr>browser :=
                  send (post_progress (getProgressUrl pr) (authToken pr) pos status rate) (browser c)\<rparr>
      in case out of
           FetchRejected \<Rightarrow> Threw ''TypeError'' c1
         | Responded code body \<Rightarrow>
             if ok code then
               (case body of
                  BodyRejected \<Rightarrow> Threw ''SyntaxError'' c1
                | Body _ \<Rightarrow>
                    (case onProgressUpdate pr of
                       None \<Rightarrow> Returned c1
                     | Some cb \<Rightarrow>
                         (let c2 = c1\<lparr>progressCalls := progressCalls c1 @ [(pos, status, rate)]\<rparr>
                          in case cb of CbReturns \<Rightarrow> Returned c2 | CbThrows \<Rightarrow> Threw ''Error'' c2)))
             else
               (case body of
                  BodyRejected \<Rightarrow> Threw ''TypeError'' c1
                | Body _ \<Rightarrow> Returned c1))"

text \<open>\<open>updateProgress\<close>: the guard on the URL and the token, then the \<open>try\<close> block
  with its \<open>catch\<close>, which only logs.\<close>

definition updateProgress ::
  "component \<Rightarrow> real \<Rightarrow> string \<Rightarrow> unit fetch_outcome \<Rightarrow> component result" where
  "updateProgress c pos status out =
     (if \<not> truthy_str (getProgressUrl (props c)) \<or> \<not> has_token (props c) then Returned c
      else (case updateProgress_try c pos status out of
              Returned c' \<Rightarrow> Returned c'
            | Threw e c' \<Rightarrow> Returned c'))"

section \<open>Player controls\<close>

datatype play_outcome = PlayResolved | PlayRejected string

definition userFriendlyError :: "string \<Rightarrow> string" where
  "userFriendlyError name =
     (if name = ''NotAllowedError'' then ''Playback blocked by browser. Please click play again.''
      else if name = ''NotSupportedError'' then ''Audio format not supported by this browser.''
      else ''Failed to play audio. Please try again.'')"

definition handlePlay :: "component \<Rightarrow> play_outcome \<Rightarrow> component" where
  "handlePlay c out =
     (case audioRef c of
        None \<Rightarrow> c
      | Some a \<Rightarrow>
          (let c0 = c\<lparr>browser := logMedia CallPlay (browser c)\<rparr>
           in case out of
                PlayResolved \<Rightarrow>
                  (let (h, b) = setInterval (browser c0)
                   in c0\<lparr>audioRef := Some (a\<lparr>paused := False\<rparr>),
                         state := (state c0)\<lparr>isPlaying := True, error := None\<rparr>,
                         progressIntervalRef := Some h,
                         browser := b\<rparr>)
              | PlayRejected name \<Rightarrow>
                  c0\<lparr>state := (state c0)\<lparr>error := Some (userFriendlyError name)\<rparr>\<rparr>))"

definition handlePause :: "component \<Rightarrow> unit fetch_outcome \<Rightarrow> component" where
  "handlePause c out =
     (case audioRef c of
        None \<Rightarrow> c
      | Some a \<Rightarrow>
          (let pausePosition = el_currentTime a;
               c1 = c\<lparr>audioRef := Some (a\<lparr>paused := True\<rparr>),
                      browser := logMedia CallPause (browser c),
                      state := (state c)\<lparr>isPlaying := False\<rparr>\<rparr>;
               c2 = (case progressIntervalRef c1 of
                       None \<Rightarrow> c1
                     | Some h \<Rightarrow>
                         if truthy_handle (Some h)
                         then c1\<lparr>browser := clearInterval h (browser c1)\<rparr> else c1)
           in settled (updateProgress c2 pausePosition ''paused'' out)))"

definition handleSeek :: "component \<Rightarrow> real \<Rightarrow> unit fetch_outcome \<Rightarrow> component" where
  "handleSeek c newTime out =
     (case audioRef c of
        None \<Rightarrow> c
      | Some a \<Rightarrow>
          (let c1 = c\<lparr>audioRef := Some (a\<lparr>el_currentTime := newTime\<rparr>),
                      browser := logMedia (SetCurrentTime newTime) (browser c),
                      state := (state c)\<lparr>currentTime := newTime\<rparr>\<rparr>
           in settled (updateProgress c1 newTime
                         (if isPlaying (state c) then ''playing'' else ''paused'') out)))"

definition handleSkipForward :: "component \<Rightarrow> unit fetch_outcome \<Rightarrow> component" where
  "handleSkipForward c out =
     handleSeek c (min (currentTime (state c) + 30) (duration (state c))) out"

definition handleSkipBackward :: "component \<Rightarrow> unit fetch_outcome \<Rightarrow> component" where
  "handleSkipBackward c out =
     handleSeek c (max (currentTime (state c) - 30) 0) out"

section \<open>The audio source, resume and cleanup\<close>




text \<open>What \<open>handleResume\<close> does once it has a source \<open>s\<close>: assign it, mark the player
  as playing and install the \<open>onloadedmetadata\<close> closure. Assigning to a null
  \<open>audioRef.current\<close> throws.\<close>

definition resume_with :: "component \<Rightarrow> source \<Rightarrow> component result" where
  "resume_with c s =
     (case audioRef c of
        None \<Rightarrow> Threw ''TypeError'' c
      | Some a \<Rightarrow>
          Returned
            (c\<lparr>audioRef :=
                  Some (a\<lparr>src := s,
                          onloadedmetadata := Some (ResumeOnMetadata (resumePosition (state c)))\<rparr>),
               browser := logMedia (SetSrc s) (browser c),
               state := (state c)\<lparr>isLoading := False, isPlaying := True\<rparr>\<rparr>))"






section \<open>Resume and Start Over\<close>

text \<open>What \<open>checkResume\<close> stores from a fetched record.\<close>

definition applyProgress ::
  "(string \<Rightarrow> real option) \<Rightarrow> progress_record \<Rightarrow> player_state \<Rightarrow> player_state" where
  "applyProgress pf p s =
     (let cp = parseFloat pf (completion_percentage p);
          s1 = s\<lparr>completionPercentage := (case cp of None \<Rightarrow> 0 | Some x \<Rightarrow> x)\<rparr>;
          s2 = (case position p of
                  JNum r \<Rightarrow>
                    if r > 0 \<and> (case cp of None \<Rightarrow> False | Some x \<Rightarrow> x < 100)
                    then s1\<lparr>resumeAvailable := True, resumePosition := Some r\<rparr>
                    else s1\<lparr>resumeAvailable := False\<rparr>
                | _ \<Rightarrow> s1\<lparr>resumeAvailable := False\<rparr>)
      in if is_finished p = JNum 1 \<or> is_finished p = JBool True
         then s2\<lparr>showStartOver := True\<rparr>
         else s2\<lparr>showStartOver := False\<rparr>)"

definition reset_resume :: "component \<Rightarrow> component" where
  "reset_resume c =
     c\<lparr>state := (state c)\<lparr>resumeAvailable := False, showStartOver := False,
                           completionPercentage := 0\<rparr>\<rparr>"

text \<open>\<open>checkResume\<close>; the body of the response is \<open>None\<close> when \<open>data\<close> or
  \<open>data.progress\<close> is falsy.\<close>

definition checkResume ::
  "(string \<Rightarrow> real option) \<Rightarrow> component \<Rightarrow> progress_record option fetch_outcome \<Rightarrow> component" where
  "checkResume pf c out =
     (let url = getProgressUrl (props c)
      in if \<not> truthy_str url \<or> \<not> has_token (props c) then c
         else
           (let c1 = c\<lparr>browser := send (get_request url (authToken (props c))) (browser c)\<rparr>
            in case out of
                 FetchRejected \<Rightarrow> reset_resume c1
               | Responded code body \<Rightarrow>
                   if ok code then
                     (case body of
                        BodyRejected \<Rightarrow> reset_resume c1
                      | Body None \<Rightarrow> c1
                      | Body (Some p) \<Rightarrow> c1\<lparr>state := applyProgress pf p (state c1)\<rparr>)
                   else c1))"

text \<open>The three conditional buttons of the render: \<open>Resume from ...\<close>,
  \<open>Restart Book\<close> and \<open>Start Over Again\<close>.\<close>

definition resumeVisible :: "player_state \<Rightarrow> bool" where
  "resumeVisible s =
     (\<not> isPlaying s \<and> resumeAvailable s \<and> completionPercentage s < 100 \<and> \<not> showStartOver s)"

definition restartVisible :: "player_state \<Rightarrow> bool" where
  "restartVisible s =
     (resumeAvailable s \<and>
      (case resumePosition s of None \<Rightarrow> False | Some r \<Rightarrow> duration s > 0 \<and> r \<ge> duration s))"

definition startOverVisible :: "player_state \<Rightarrow> bool" where
  "startOverVisible s = (\<not> isPlaying s \<and> showStartOver s)"

section \<open>Sequences of play and pause\<close>

datatype call = Play play_outcome | Pause "unit fetch_outcome"

fun is_play :: "call \<Rightarrow> bool" where
  "is_play (Play out) = True"
| "is_play (Pause out) = False"

fun step :: "component \<Rightarrow> call \<Rightarrow> component" where
  "step c (Play out) = handlePlay c out"
| "step c (Pause out) = handlePause c out"

fun run :: "component \<Rightarrow> call list \<Rightarrow> component" where
  "run c [] = c"
| "run c (x # xs) = run (step c x) xs"

fun alternating :: "call list \<Rightarrow> bool" where
  "alternating [] = True"
| "alternating [x] = True"
| "alternating (x # y # xs) = (is_play x \<noteq> is_play y \<and> alternating (y # xs))"

section \<open>The auth context\<close>

record user_data =
  user_name :: "string option"
  user_email :: "string option"

text \<open>The \<open>useState\<close> cells of \<open>AuthProvider\<close> and the browser's \<open>localStorage\<close>.\<close>

record auth_context =
  authToken_ctx :: "string option"
  user_ctx :: "user_data option"
  isLoading_ctx :: bool
  localStorage :: "string \<rightharpoonup> string"

definition tokenKey :: string where
  "tokenKey = ''authToken''"

definition logout :: "auth_context \<Rightarrow> auth_context" where
  "logout w =
     w\<lparr>authToken_ctx := None, user_ctx := None,
       localStorage := (localStorage w)(tokenKey := None)\<rparr>"

definition validateToken :: "auth_context \<Rightarrow> string \<Rightarrow> user_data fetch_outcome \<Rightarrow> auth_context" where
  "validateToken w token out =
     (let w1 = (case out of
                  FetchRejected \<Rightarrow> logout w
                | Responded code body \<Rightarrow>
                    if ok code then
                      (case body of
                         BodyRejected \<Rightarrow> logout w
                       | Body userData \<Rightarrow> w\<lparr>user_ctx := Some userData\<rparr>)
                    else logout w)
      in w1\<lparr>isLoading_ctx := False\<rparr>)"

definition isAuthenticated :: "auth_context \<Rightarrow> bool" where
  "isAuthenticated w = (case authToken_ctx w of None \<Rightarrow> False | Some t \<Rightarrow> truthy_str t)"

datatype view = LoadingView | LoginView | PlayerView

text \<open>What \<open>AppContent\<close> renders.\<close>

definition AppContent :: "auth_context \<Rightarrow> view" where
  "AppContent w =
     (if isLoading_ctx w then LoadingView
      else if \<not> isAuthenticated w then LoginView
      else PlayerView)"

section \<open>Failed requests and sample instances\<close>

text \<open>A request has failed when \<open>fetch\<close> rejects or the response is not 2xx.\<close>

fun failed :: "'a fetch_outcome \<Rightarrow> bool" where
  "failed FetchRejected = True"
| "failed (Responded code body) = (\<not> ok code)"

definition sample_props :: props where
  "sample_props =
     \<lparr>apiBaseUrl = ''http://localhost:10000'', authToken = Some ''token'',
      onProgressUpdate = Some CbReturns, autoPlay = False, showDownload = True,
      showBookmark = True\<rparr>"

definition anonymous_props :: props where
  "anonymous_props = sample_props\<lparr>authToken := None\<rparr>"

text \<open>A player with a token whose audio (100 seconds) has loaded from an object URL and
  has played up to second 80, and is paused.\<close>

definition loaded_audio :: audio_element where
  "loaded_audio = fresh_audio\<lparr>src := ObjectURL 0, el_duration := 100, el_currentTime := 80\<rparr>"

definition loaded_player :: component where
  "loaded_player =
     (mounted sample_props fresh_browser)
       \<lparr>state := initial_state\<lparr>duration := 100, currentTime := 80\<rparr>,
        audioRef := Some loaded_audio,
        browser := fresh_browser\<lparr>createdURLs := [0]\<rparr>\<rparr>"

text \<open>Two progress records, and a string parser that recognises no number.\<close>

definition finished_record :: progress_record where
  "finished_record =
     \<lparr>position = JNum 120, completion_percentage = JNum 100, is_finished = JNum 1,
      playback_speed = JNum 1\<rparr>"

definition halfway_record :: progress_record where
  "halfway_record =
     \<lparr>position = JNum 120, completion_percentage = JNum 25, is_finished = JBool False,
      playback_speed = JNum 1\<rparr>"

definition no_strings :: "string \<Rightarrow> real option" where
  "no_strings s = None"

text \<open>The auth context after the mount effect has found a stored token and is about to
  validate it.\<close>

definition stale_session :: auth_context where
  "stale_session =
     \<lparr>authToken_ctx = Some ''stale'', user_ctx = None, isLoading_ctx = True,
      localStorage = [tokenKey \<mapsto> ''stale'']\<rparr>"

section \<open>Timers and sessions\<close>

text \<open>No timer is live; exactly the timer that \<open>progressIntervalRef\<close> holds is live.\<close>

definition quiet :: "component \<Rightarrow> bool" where
  "quiet c = (intervals (browser c) = [])"

definition single :: "component \<Rightarrow> bool" where
  "single c = (\<exists>h. h \<noteq> 0 \<and> progressIntervalRef c = Some h \<and> intervals (browser c) = [h])"





section \<open>Facts about the progress push\<close>

lemma progressUrl_truthy: "truthy_str (getProgressUrl pr)"
  by (simp add: truthy_str_def getProgressUrl_def)


lemma updateProgress_returns: "\<exists>c'. updateProgress c pos status out = Returned c'"
  by (simp add: updateProgress_def split: result.splits)

lemma updateProgress_try_frame:
  "state (settled (updateProgress_try c pos status out)) = state c \<and>
   props (settled (updateProgress_try c pos status out)) = props c \<and>
   audioRef (settled (updateProgress_try c pos status out)) = audioRef c \<and>
   progressIntervalRef (settled (updateProgress_try c pos status out)) = progressIntervalRef c \<and>
   intervals (browser (settled (updateProgress_try c pos status out))) = intervals (browser c) \<and>
   lastHandle (browser (settled (updateProgress_try c pos status out))) = lastHandle (browser c) \<and>
   createdURLs (browser (settled (updateProgress_try c pos status out))) = createdURLs (browser c) \<and>
   revokeCalls (browser (settled (updateProgress_try c pos status out))) = revokeCalls (browser c) \<and>
   mediaLog (browser (settled (updateProgress_try c pos status out))) = mediaLog (browser c)"
  by (simp add: updateProgress_try_def Let_def send_def
           split: fetch_outcome.splits body.splits option.splits callback.splits)

lemma updateProgress_settled:
  "settled (updateProgress c pos status out) =
     (if has_token (props c) then settled (updateProgress_try c pos status out) else c)"
  by (simp add: updateProgress_def progressUrl_truthy split: result.splits)

lemma updateProgress_frame:
  "state (settled (updateProgress c pos status out)) = state c \<and>
   props (settled (updateProgress c pos status out)) = props c \<and>
   audioRef (settled (updateProgress c pos status out)) = audioRef c \<and>
   progressIntervalRef (settled (updateProgress c pos status out)) = progressIntervalRef c \<and>
   intervals (browser (settled (updateProgress c pos status out))) = intervals (browser c) \<and>
   lastHandle (browser (settled (updateProgress c pos status out))) = lastHandle (browser c) \<and>
   createdURLs (browser (settled (updateProgress c pos status out))) = createdURLs (browser c) \<and>
   revokeCalls (browser (settled (updateProgress c pos status out))) = revokeCalls (browser c) \<and>
   mediaLog (browser (settled (updateProgress c pos status out))) = mediaLog (browser c)"
  using updateProgress_try_frame [of c pos status out]
  by (simp add: updateProgress_settled)

lemma updateProgress_requests:
  "requests (browser (settled (updateProgress c pos status out))) =
     (if has_token (props c)
      then requests (browser c) @
             [post_progress (getProgressUrl (props c)) (authToken (props c)) pos status
                (playbackRate (state c))]
      else requests (browser c))"
  by (simp add: updateProgress_settled updateProgress_try_def Let_def send_def
        split: fetch_outcome.splits body.splits option.splits callback.splits)

section \<open>Facts about seeking\<close>

lemma handleSeek_state:
  "audioRef c = Some a \<Longrightarrow>
   state (handleSeek c t out) = (state c)\<lparr>currentTime := t\<rparr>"
  by (simp add: handleSeek_def Let_def updateProgress_frame)

lemma handleSeek_audio:
  "audioRef c = Some a \<Longrightarrow>
   audioRef (handleSeek c t out) = Some (a\<lparr>el_currentTime := t\<rparr>)"
  by (simp add: handleSeek_def Let_def updateProgress_frame)

lemma handleSeek_mediaLog:
  "audioRef c = Some a \<Longrightarrow>
   mediaLog (browser (handleSeek c t out)) = mediaLog (browser c) @ [SetCurrentTime t]"
  by (simp add: handleSeek_def Let_def updateProgress_frame logMedia_def)

lemma handleSeek_requests:
  "audioRef c = Some a \<Longrightarrow>
   requests (browser (handleSeek c t out)) =
     (if has_token (props c)
      then requests (browser c) @
             [post_progress (getProgressUrl (props c)) (authToken (props c)) t
                (if isPlaying (state c) then ''playing'' else ''paused'')
                (playbackRate (state c))]
      else requests (browser c))"
  by (simp add: handleSeek_def Let_def updateProgress_requests logMedia_def)

lemma handleSeek_unmounted: "audioRef c = None \<Longrightarrow> handleSeek c t out = c"
  by (simp add: handleSeek_def)

section \<open>Facts about the stored progress\<close>

lemma checkResume_state:
  "has_token (props c) \<Longrightarrow> ok code \<Longrightarrow>
   state (checkResume pf c (Responded code (Body (Some p)))) = applyProgress pf p (state c)"
  by (simp add: checkResume_def Let_def progressUrl_truthy)

lemma applyProgress_isPlaying: "isPlaying (applyProgress pf p s) = isPlaying s"
  by (simp add: applyProgress_def Let_def split: jsval.splits)

lemma applyProgress_showStartOver:
  "showStartOver (applyProgress pf p s) = (is_finished p = JNum 1 \<or> is_finished p = JBool True)"
  by (simp add: applyProgress_def Let_def split: jsval.splits)

lemma applyProgress_numbers:
  "position p = JNum pos \<Longrightarrow> parseFloat pf (completion_percentage p) = Some cp \<Longrightarrow>
   resumeAvailable (applyProgress pf p s) = (pos > 0 \<and> cp < 100) \<and>
   completionPercentage (applyProgress pf p s) = cp \<and>
   resumePosition (applyProgress pf p s) =
     (if pos > 0 \<and> cp < 100 then Some pos else resumePosition s)"
  by (simp add: applyProgress_def Let_def)

text \<open>The \<open>Restart Book\<close> button is rendered from the resume position and the
  duration alone; neither the finished flag nor \<open>isPlaying\<close> enters its condition.\<close>

lemma restartVisible_frame:
  "restartVisible (s\<lparr>showStartOver := f, isPlaying := q\<rparr>) = restartVisible s"
  by (simp add: restartVisible_def split: option.splits)

section \<open>Facts about timers\<close>

lemma handlePlay_mounted: "audioRef c \<noteq> None \<Longrightarrow> audioRef (handlePlay c out) \<noteq> None"
  by (auto simp: handlePlay_def Let_def setInterval_def split: play_outcome.splits)

lemma handlePause_mounted: "audioRef c \<noteq> None \<Longrightarrow> audioRef (handlePause c out) \<noteq> None"
  by (auto simp: handlePause_def Let_def updateProgress_frame split: option.splits)

lemma step_mounted: "audioRef c \<noteq> None \<Longrightarrow> audioRef (step c x) \<noteq> None"
  by (cases x) (simp_all add: handlePlay_mounted handlePause_mounted)

lemma resolved_play_single:
  "quiet c \<Longrightarrow> audioRef c \<noteq> None \<Longrightarrow> single (handlePlay c PlayResolved)"
  by (auto simp: quiet_def single_def handlePlay_def Let_def setInterval_def logMedia_def)

lemma rejected_play_quiet: "quiet c \<Longrightarrow> quiet (handlePlay c (PlayRejected n))"
  by (auto simp: quiet_def handlePlay_def Let_def logMedia_def split: option.splits)

lemma handlePause_quiet:
  "quiet c \<or> single c \<Longrightarrow> audioRef c \<noteq> None \<Longrightarrow> quiet (handlePause c out)"
  by (auto simp: quiet_def single_def handlePause_def Let_def updateProgress_frame
        clearInterval_def logMedia_def split: option.splits)

lemma run_alternating:
  "audioRef c \<noteq> None \<Longrightarrow> alternating cs \<Longrightarrow>
   quiet c \<or> (single c \<and> (\<forall>x xs. cs = x # xs \<longrightarrow> \<not> is_play x)) \<Longrightarrow>
   audioRef (run c cs) \<noteq> None \<and> (quiet (run c cs) \<or> single (run c cs)) \<and>
   (cs \<noteq> [] \<longrightarrow>
      (\<not> is_play (last cs) \<longrightarrow> quiet (run c cs)) \<and>
      (last cs = Play PlayResolved \<longrightarrow> single (run c cs)))"
proof (induction cs arbitrary: c)
  case Nil
  then show ?case by auto
next
  case (Cons x xs)
  have mounted': "audioRef (step c x) \<noteq> None"
    using Cons.prems(1) by (rule step_mounted)
  have alt: "alternating xs"
    using Cons.prems(2) by (cases xs) simp_all
  have next_pause: "is_play x \<Longrightarrow> \<forall>y ys. xs = y # ys \<longrightarrow> \<not> is_play y"
    using Cons.prems(2) by (cases xs) auto
  show ?case
  proof (cases x)
    case (Play po)
    then have q: "quiet c" using Cons.prems(3) by auto
    have after: "(po = PlayResolved \<longrightarrow> single (step c x)) \<and> (po \<noteq> PlayResolved \<longrightarrow> quiet (step c x))"
      using q Cons.prems(1) Play
      by (cases po) (simp_all add: resolved_play_single rejected_play_quiet)
    have pre: "quiet (step c x) \<or> (single (step c x) \<and> (\<forall>y ys. xs = y # ys \<longrightarrow> \<not> is_play y))"
      using after next_pause Play by (cases po) auto
    from Cons.IH [OF mounted' alt pre] after Play show ?thesis
      by (cases xs) auto
  next
    case (Pause fo)
    have q: "quiet (step c x)"
      using Cons.prems(1,3) Pause by (auto intro: handlePause_quiet)
    then have pre: "quiet (step c x) \<or> (single (step c x) \<and> (\<forall>y ys. xs = y # ys \<longrightarrow> \<not> is_play y))"
      by simp
    from Cons.IH [OF mounted' alt pre] q Pause show ?thesis
      by (cases xs) auto
  qed
qed

lemma alternating_take: "alternating cs \<Longrightarrow> alternating (take n cs)"
proof (induction cs arbitrary: n rule: alternating.induct)
  case 1
  then show ?case by simp
next
  case (2 x)
  then show ?case by (cases n) simp_all
next
  case (3 x y xs)
  show ?case
  proof (cases n)
    case 0
    then show ?thesis by simp
  next
    case (Suc m)
    have "alternating (take m (y # xs))" using 3 by simp
    then show ?thesis using 3(2) Suc by (cases m) simp_all
  qed
qed

lemma quiet_or_single_length:
  "quiet c \<or> single c \<Longrightarrow> length (intervals (browser c)) \<le> 1"
  by (auto simp: quiet_def single_def)

lemma mounted_quiet: "intervals b = [] \<Longrightarrow> quiet (mounted pr b) \<and> audioRef (mounted pr b) \<noteq> None"
  by (simp add: quiet_def mounted_def)

section \<open>Facts about object URLs and unmounting\<close>









section \<open>Facts about resuming\<close>

lemma resume_with_mounted:
  "audioRef c = Some a \<Longrightarrow>
   resume_with c s =
     Returned (c\<lparr>audioRef :=
                  Some (a\<lparr>src := s,
                          onloadedmetadata := Some (ResumeOnMetadata (resumePosition (state c)))\<rparr>),
               browser := logMedia (SetSrc s) (browser c),
               state := (state c)\<lparr>isLoading := False, isPlaying := True\<rparr>\<rparr>)"
  by (simp add: resume_with_def)







section \<open>Properties of the player and of the auth context\<close>

text \<open>
  C10. When no auth token is present, the progress push returns early: it returns the
  instance as it was, so no request is sent and nothing of the player changes.
\<close>

theorem updateProgress_without_token:
  "\<not> has_token (props c) \<Longrightarrow> updateProgress c pos status out = Returned c"
  by (simp add: updateProgress_def)

theorem updateProgress_without_token_witness:
  "\<not> has_token (props (mounted anonymous_props fresh_browser)) \<and>
   updateProgress (mounted anonymous_props fresh_browser) 42 ''playing'' (Responded 200 (Body ()))
     = Returned (mounted anonymous_props fresh_browser)"
  using updateProgress_without_token
          [of "mounted anonymous_props fresh_browser" 42 "''playing''" "Responded 200 (Body ())"]
  by (simp add: has_token_def mounted_def anonymous_props_def sample_props_def)

text \<open>
  C6. A progress push whose request fails (the fetch rejects, or the response is not
  2xx) does not throw, and leaves the React state (\<open>isPlaying\<close>, \<open>currentTime\<close>,
  \<open>error\<close> and the rest), the refs and the timers as they were; the
  \<open>onProgressUpdate\<close> callback is not called, and exactly one POST was sent,
  so there is no retry.
\<close>

theorem updateProgress_failure_swallowed:
  assumes "failed out"
  shows "(\<exists>c'. updateProgress c pos status out = Returned c') \<and>
         state (settled (updateProgress c pos status out)) = state c \<and>
         audioRef (settled (updateProgress c pos status out)) = audioRef c \<and>
         progressIntervalRef (settled (updateProgress c pos status out)) = progressIntervalRef c \<and>
         intervals (browser (settled (updateProgress c pos status out))) = intervals (browser c) \<and>
         progressCalls (settled (updateProgress c pos status out)) = progressCalls c \<and>
         requests (browser (settled (updateProgress c pos status out))) =
           (if has_token (props c)
            then requests (browser c) @
                   [post_progress (getProgressUrl (props c)) (authToken (props c)) pos status
                      (playbackRate (state c))]
            else requests (browser c))"
proof -
  have calls: "progressCalls (settled (updateProgress c pos status out)) = progressCalls c"
    using assms
    by (cases out)
       (simp_all add: updateProgress_settled updateProgress_try_def Let_def split: body.splits)
  have reqs: "requests (browser (settled (updateProgress c pos status out))) =
           (if has_token (props c)
            then requests (browser c) @
                   [post_progress (getProgressUrl (props c)) (authToken (props c)) pos status
                      (playbackRate (state c))]
            else requests (browser c))"
    using assms
    by (cases out)
       (simp_all add: updateProgress_settled updateProgress_try_def Let_def send_def
                 split: body.splits)
  show ?thesis
    using updateProgress_returns [of c pos status out] updateProgress_frame [of c pos status out]
          calls reqs
    by simp
qed

theorem updateProgress_failure_swallowed_witness:
  "failed (Responded 500 (Body ())) \<and>
   updateProgress (mounted sample_props fresh_browser) 42 ''playing'' (Responded 500 (Body ())) =
     Returned ((mounted sample_props fresh_browser)
        \<lparr>browser := fresh_browser\<lparr>requests :=
           [post_progress ''http://localhost:10000/audioStreaming/books/2/progress''
              (Some ''token'') 42 ''playing'' 1]\<rparr>\<rparr>)"
proof -
  have f: "failed (Responded 500 (Body ()))" by (simp add: ok_def)
  obtain c' where c': "updateProgress (mounted sample_props fresh_browser) 42 ''playing'' (Responded 500 (Body ())) = Returned c'"
    using updateProgress_failure_swallowed [OF f, of "mounted sample_props fresh_browser" 42 "''playing''"]
    by blast
  show ?thesis using f c'
    by (simp add: updateProgress_def updateProgress_try_def Let_def has_token_def
          truthy_str_def getProgressUrl_def BOOK_ID_def mounted_def sample_props_def ok_def
          send_def fresh_browser_def initial_state_def)
qed

text \<open>
  C2, as stated, fails: \<open>handleSeek\<close> does not clamp. Seeking the loaded player (duration
  100) to 150 records 150 as the current position and pushes 150 to the backend, and
  seeking to -5 records -5.
\<close>

theorem handleSeek_out_of_range:
  "currentTime (state (handleSeek loaded_player 150 (Responded 200 (Body ())))) \<noteq>
     min (max 150 0) (duration (state loaded_player)) \<and>
   currentTime (state (handleSeek loaded_player 150 (Responded 200 (Body ())))) = 150 \<and>
   duration (state (handleSeek loaded_player 150 (Responded 200 (Body ())))) = 100 \<and>
   map req_position (requests (browser (handleSeek loaded_player 150 (Responded 200 (Body ())))))
     = [Some 150] \<and>
   currentTime (state (handleSeek loaded_player (- 5) (Responded 200 (Body ())))) = - 5"
  by (simp add: handleSeek_def Let_def loaded_player_def loaded_audio_def mounted_def
        fresh_audio_def initial_state_def updateProgress_def updateProgress_try_def
        has_token_def sample_props_def truthy_str_def getProgressUrl_def BOOK_ID_def ok_def
        send_def logMedia_def fresh_browser_def post_progress_def)

text \<open>
  C2, amended. For every target \<open>t\<close>, \<open>handleSeek\<close> takes the target as it is: it assigns
  \<open>t\<close> to the element's position and records \<open>t\<close> as the current position, leaving
  the duration alone, and, when a token is present, pushes \<open>floor t\<close> with the
  status \<open>playing\<close> or \<open>paused\<close> in exactly one POST (without a token no request is
  sent). The recorded position is \<open>min (max t 0) duration\<close> when the caller's target
  already lies in \<open>[0, duration]\<close>.
\<close>

theorem handleSeek_accepts_target:
  assumes "audioRef c = Some a"
  shows "currentTime (state (handleSeek c t out)) = t \<and>
         state (handleSeek c t out) = (state c)\<lparr>currentTime := t\<rparr> \<and>
         audioRef (handleSeek c t out) = Some (a\<lparr>el_currentTime := t\<rparr>) \<and>
         mediaLog (browser (handleSeek c t out)) = mediaLog (browser c) @ [SetCurrentTime t] \<and>
         duration (state (handleSeek c t out)) = duration (state c) \<and>
         (0 \<le> t \<and> t \<le> duration (state c) \<longrightarrow>
            currentTime (state (handleSeek c t out)) = min (max t 0) (duration (state c))) \<and>
         requests (browser (handleSeek c t out)) =
           (if has_token (props c)
            then requests (browser c) @
                   [\<lparr>req_method = ''POST'', req_url = getProgressUrl (props c),
                     req_bearer = authToken (props c), req_position = Some \<lfloor>t\<rfloor>,
                     req_status = Some (if isPlaying (state c) then ''playing'' else ''paused''),
                     req_playback_speed = Some (playbackRate (state c))\<rparr>]
            else requests (browser c))"
  using assms
  by (simp add: handleSeek_state handleSeek_audio handleSeek_mediaLog handleSeek_requests
        post_progress_def)

theorem handleSeek_accepts_target_witness:
  "audioRef loaded_player = Some loaded_audio \<and> (0::real) \<le> 30 \<and>
   30 \<le> duration (state loaded_player) \<and> has_token (props loaded_player) \<and>
   currentTime (state (handleSeek loaded_player 30 FetchRejected)) = min (max 30 0) 100 \<and>
   map req_position (requests (browser (handleSeek loaded_player (61 / 2) FetchRejected))) =
     [Some 30] \<and>
   map req_status (requests (browser (handleSeek loaded_player (61 / 2) FetchRejected))) =
     [Some ''paused'']"
  using handleSeek_accepts_target [of loaded_player loaded_audio 30 FetchRejected]
        handleSeek_accepts_target [of loaded_player loaded_audio "61 / 2" FetchRejected]
  by (simp add: loaded_player_def mounted_def initial_state_def has_token_def sample_props_def
        truthy_str_def fresh_browser_def)

text \<open>
  C7. From a current position \<open>p\<close> with \<open>0 \<le> p \<le> duration\<close>, skipping forward seeks to
  \<open>min (p + 30) duration\<close> and skipping backward to \<open>max (p - 30) 0\<close>: each is the
  seek operation at that target, which assigns the target to the element's position,
  records it as the current position and, with a token, pushes it. The position after
  either lies in \<open>[0, duration]\<close>, and the duration is unchanged. (Without an audio
  element neither handler seeks, and the position stays \<open>p\<close>.)
\<close>

theorem skip_stays_in_range:
  assumes "0 \<le> currentTime (state c)" and "currentTime (state c) \<le> duration (state c)"
  shows "(audioRef c \<noteq> None \<longrightarrow>
            currentTime (state (handleSkipForward c out)) =
              min (currentTime (state c) + 30) (duration (state c)) \<and>
            currentTime (state (handleSkipBackward c out)) =
              max (currentTime (state c) - 30) 0) \<and>
         0 \<le> currentTime (state (handleSkipForward c out)) \<and>
         currentTime (state (handleSkipForward c out)) \<le> duration (state c) \<and>
         0 \<le> currentTime (state (handleSkipBackward c out)) \<and>
         currentTime (state (handleSkipBackward c out)) \<le> duration (state c) \<and>
         duration (state (handleSkipForward c out)) = duration (state c) \<and>
         duration (state (handleSkipBackward c out)) = duration (state c) \<and>
         handleSkipForward c out =
           handleSeek c (min (currentTime (state c) + 30) (duration (state c))) out \<and>
         handleSkipBackward c out = handleSeek c (max (currentTime (state c) - 30) 0) out \<and>
         (\<forall>a. audioRef c = Some a \<longrightarrow>
            audioRef (handleSkipForward c out) =
              Some (a\<lparr>el_currentTime := min (currentTime (state c) + 30) (duration (state c))\<rparr>) \<and>
            audioRef (handleSkipBackward c out) =
              Some (a\<lparr>el_currentTime := max (currentTime (state c) - 30) 0\<rparr>) \<and>
            mediaLog (browser (handleSkipForward c out)) =
              mediaLog (browser c) @
                [SetCurrentTime (min (currentTime (state c) + 30) (duration (state c)))] \<and>
            mediaLog (browser (handleSkipBackward c out)) =
              mediaLog (browser c) @ [SetCurrentTime (max (currentTime (state c) - 30) 0)] \<and>
            map req_position (requests (browser (handleSkipForward c out))) =
              map req_position (requests (browser c)) @
                (if has_token (props c)
                 then [Some \<lfloor>min (currentTime (state c) + 30) (duration (state c))\<rfloor>] else []) \<and>
            map req_position (requests (browser (handleSkipBackward c out))) =
              map req_position (requests (browser c)) @
                (if has_token (props c)
                 then [Some \<lfloor>max (currentTime (state c) - 30) 0\<rfloor>] else []))"
proof (cases "audioRef c")
  case None
  then show ?thesis
    using assms by (simp add: handleSkipForward_def handleSkipBackward_def handleSeek_unmounted)
next
  case (Some a)
  then show ?thesis
    using assms
    by (simp add: handleSkipForward_def handleSkipBackward_def handleSeek_state
          handleSeek_audio handleSeek_mediaLog handleSeek_requests post_progress_def)
qed

theorem skip_stays_in_range_witness:
  "0 \<le> currentTime (state loaded_player) \<and>
   currentTime (state loaded_player) \<le> duration (state loaded_player) \<and>
   audioRef loaded_player = Some loaded_audio \<and>
   currentTime (state (handleSkipForward loaded_player FetchRejected)) = 100 \<and>
   currentTime (state (handleSkipBackward loaded_player FetchRejected)) = 50 \<and>
   audioRef (handleSkipForward loaded_player FetchRejected) =
     Some (loaded_audio\<lparr>el_currentTime := 100\<rparr>) \<and>
   mediaLog (browser (handleSkipBackward loaded_player FetchRejected)) = [SetCurrentTime 50] \<and>
   map req_position (requests (browser (handleSkipForward loaded_player FetchRejected))) =
     [Some 100]"
proof -
  have lo: "0 \<le> currentTime (state loaded_player)"
    and hi: "currentTime (state loaded_player) \<le> duration (state loaded_player)"
    and el: "audioRef loaded_player = Some loaded_audio"
    by (simp_all add: loaded_player_def initial_state_def)
  have now: "currentTime (state loaded_player) = 80" "duration (state loaded_player) = 100"
    "has_token (props loaded_player)" "mediaLog (browser loaded_player) = []"
    "requests (browser loaded_player) = []"
    by (simp_all add: loaded_player_def mounted_def initial_state_def has_token_def
          sample_props_def truthy_str_def fresh_browser_def)
  note skip = skip_stays_in_range [OF lo hi, of FetchRejected]
  have state: "currentTime (state (handleSkipForward loaded_player FetchRejected)) = 100 \<and>
      currentTime (state (handleSkipBackward loaded_player FetchRejected)) = 50"
  proof -
    from skip el have
      "currentTime (state (handleSkipForward loaded_player FetchRejected)) =
         min (currentTime (state loaded_player) + 30) (duration (state loaded_player))"
      "currentTime (state (handleSkipBackward loaded_player FetchRejected)) =
         max (currentTime (state loaded_player) - 30) 0"
      by blast+
    then show ?thesis by (simp add: now)
  qed
  have element: "audioRef (handleSkipForward loaded_player FetchRejected) =
        Some (loaded_audio\<lparr>el_currentTime := 100\<rparr>) \<and>
      mediaLog (browser (handleSkipBackward loaded_player FetchRejected)) = [SetCurrentTime 50] \<and>
      map req_position (requests (browser (handleSkipForward loaded_player FetchRejected))) =
        [Some 100]"
  proof -
    from skip el have
      "audioRef (handleSkipForward loaded_player FetchRejected) =
         Some (loaded_audio\<lparr>el_currentTime :=
           min (currentTime (state loaded_player) + 30) (duration (state loaded_player))\<rparr>)"
      "mediaLog (browser (handleSkipBackward loaded_player FetchRejected)) =
         mediaLog (browser loaded_player) @
           [SetCurrentTime (max (currentTime (state loaded_player) - 30) 0)]"
      "map req_position (requests (browser (handleSkipForward loaded_player FetchRejected))) =
         map req_position (requests (browser loaded_player)) @
           (if has_token (props loaded_player)
            then [Some \<lfloor>min (currentTime (state loaded_player) + 30)
                           (duration (state loaded_player))\<rfloor>]
            else [])"
      by blast+
    then show ?thesis by (simp add: now)
  qed
  show ?thesis using lo hi el state element by simp
qed

text \<open>
  C5. When the element's \<open>play()\<close> rejects, the error shown is one of three fixed
  messages, chosen by the name of the rejection (\<open>NotAllowedError\<close>,
  \<open>NotSupportedError\<close>, anything else); \<open>isPlaying\<close> is not touched, so a player
  that was not playing stays so, and no timer is started.
\<close>

theorem handlePlay_rejected:
  assumes "audioRef c = Some a"
  shows "error (state (handlePlay c (PlayRejected name))) =
           Some (if name = ''NotAllowedError''
                 then ''Playback blocked by browser. Please click play again.''
                 else if name = ''NotSupportedError''
                 then ''Audio format not supported by this browser.''
                 else ''Failed to play audio. Please try again.'') \<and>
         isPlaying (state (handlePlay c (PlayRejected name))) = isPlaying (state c) \<and>
         (\<not> isPlaying (state c) \<longrightarrow> \<not> isPlaying (state (handlePlay c (PlayRejected name)))) \<and>
         intervals (browser (handlePlay c (PlayRejected name))) = intervals (browser c) \<and>
         progressIntervalRef (handlePlay c (PlayRejected name)) = progressIntervalRef c"
  using assms by (simp add: handlePlay_def Let_def userFriendlyError_def logMedia_def)

theorem handlePlay_rejected_witness:
  "audioRef loaded_player = Some loaded_audio \<and>
   \<not> isPlaying (state loaded_player) \<and>
   error (state (handlePlay loaded_player (PlayRejected ''NotAllowedError''))) =
     Some ''Playback blocked by browser. Please click play again.'' \<and>
   \<not> isPlaying (state (handlePlay loaded_player (PlayRejected ''NotAllowedError''))) \<and>
   intervals (browser (handlePlay loaded_player (PlayRejected ''NotAllowedError''))) = []"
  using handlePlay_rejected [of loaded_player loaded_audio "''NotAllowedError''"]
  by (simp add: loaded_player_def mounted_def initial_state_def fresh_browser_def)

text \<open>
  C1, as stated, fails: both buttons are rendered only while the player is not playing.
  When the progress arrives after playback has started, a finished record shows no
  Start Over button, and a record at position 120 with 25 percent shows no Resume button.
\<close>

theorem affordances_while_playing:
  "is_finished finished_record = JNum 1 \<and>
   \<not> startOverVisible (state (checkResume no_strings (handlePlay loaded_player PlayResolved)
                                 (Responded 200 (Body (Some finished_record))))) \<and>
   is_finished halfway_record = JBool False \<and> position halfway_record = JNum 120 \<and>
   completion_percentage halfway_record = JNum 25 \<and>
   \<not> resumeVisible (state (checkResume no_strings (handlePlay loaded_player PlayResolved)
                              (Responded 200 (Body (Some halfway_record)))))"
  by (simp add: finished_record_def halfway_record_def startOverVisible_def resumeVisible_def
        checkResume_def Let_def progressUrl_truthy applyProgress_isPlaying
        handlePlay_def loaded_player_def mounted_def has_token_def sample_props_def
        truthy_str_def setInterval_def ok_def)

text \<open>
  C1, amended. For a fetched record whose position is a number and whose completion
  percentage parses to a number: the Resume button and the Start Over button are never
  both visible. While the player is not playing, a record with \<open>is_finished\<close> true or 1
  shows Start Over only; otherwise one with \<open>position > 0\<close> and
  \<open>completion_percentage < 100\<close> shows Resume only, with the position as the resume
  target; otherwise neither is shown. While the player is playing, neither is shown.
\<close>

theorem affordance_priority:
  fixes c :: component and pf code p pos cp
  defines "s' \<equiv> state (checkResume pf c (Responded code (Body (Some p))))"
  assumes "has_token (props c)" and "ok code"
      and "position p = JNum pos" and "parseFloat pf (completion_percentage p) = Some cp"
  shows "\<not> (resumeVisible s' \<and> startOverVisible s') \<and>
         (\<not> isPlaying (state c) \<longrightarrow>
            (is_finished p = JBool True \<or> is_finished p = JNum 1 \<longrightarrow>
               startOverVisible s' \<and> \<not> resumeVisible s') \<and>
            (\<not> (is_finished p = JBool True \<or> is_finished p = JNum 1) \<and> pos > 0 \<and> cp < 100 \<longrightarrow>
               resumeVisible s' \<and> \<not> startOverVisible s' \<and> resumePosition s' = Some pos) \<and>
            (\<not> (is_finished p = JBool True \<or> is_finished p = JNum 1) \<and> \<not> (pos > 0 \<and> cp < 100) \<longrightarrow>
               \<not> resumeVisible s' \<and> \<not> startOverVisible s')) \<and>
         (isPlaying (state c) \<longrightarrow> \<not> resumeVisible s' \<and> \<not> startOverVisible s')"
proof -
  have s': "s' = applyProgress pf p (state c)"
    using assms(2,3) by (simp add: s'_def checkResume_state)
  show ?thesis
    using applyProgress_numbers [OF assms(4,5), of "state c"]
    by (auto simp: s' resumeVisible_def startOverVisible_def applyProgress_isPlaying
          applyProgress_showStartOver)
qed

theorem affordance_priority_witness:
  "has_token (props loaded_player) \<and> ok 200 \<and> \<not> isPlaying (state loaded_player) \<and>
   startOverVisible (state (checkResume no_strings loaded_player
                              (Responded 200 (Body (Some finished_record))))) \<and>
   \<not> resumeVisible (state (checkResume no_strings loaded_player
                              (Responded 200 (Body (Some finished_record))))) \<and>
   resumeVisible (state (checkResume no_strings loaded_player
                              (Responded 200 (Body (Some halfway_record))))) \<and>
   resumePosition (state (checkResume no_strings loaded_player
                              (Responded 200 (Body (Some halfway_record))))) = Some 120"
proof -
  have t: "has_token (props loaded_player)"
    by (simp add: loaded_player_def mounted_def has_token_def sample_props_def truthy_str_def)
  have k: "ok 200" by (simp add: ok_def)
  have np: "\<not> isPlaying (state loaded_player)"
    by (simp add: loaded_player_def initial_state_def)
  show ?thesis
    using t k np
      affordance_priority [OF t k, where p = finished_record and pos = 120 and cp = 100
        and pf = no_strings]
      affordance_priority [OF t k, where p = halfway_record and pos = 120 and cp = 25
        and pf = no_strings]
    by (simp add: finished_record_def halfway_record_def)
qed

text \<open>
  C9. When the validation of the stored token fails (the fetch rejects, or the response
  is not 2xx), the token is removed from \<open>localStorage\<close>, the token and the user of
  the context are null, loading is over and the app renders the login view.
\<close>

theorem validateToken_failure_logs_out:
  assumes "failed out"
  shows "localStorage (validateToken w token out) tokenKey = None \<and>
         authToken_ctx (validateToken w token out) = None \<and>
         user_ctx (validateToken w token out) = None \<and>
         \<not> isLoading_ctx (validateToken w token out) \<and>
         AppContent (validateToken w token out) = LoginView"
  using assms
  by (cases out)
     (simp_all add: validateToken_def logout_def AppContent_def isAuthenticated_def Let_def)

theorem validateToken_failure_logs_out_witness:
  "failed (Responded 401 (Body \<lparr>user_name = None, user_email = None\<rparr>)) \<and>
   localStorage stale_session tokenKey = Some ''stale'' \<and>
   localStorage (validateToken stale_session ''stale''
      (Responded 401 (Body \<lparr>user_name = None, user_email = None\<rparr>))) tokenKey = None \<and>
   AppContent (validateToken stale_session ''stale''
      (Responded 401 (Body \<lparr>user_name = None, user_email = None\<rparr>))) = LoginView \<and>
   AppContent (validateToken stale_session ''stale'' FetchRejected) = LoginView"
proof -
  have f: "failed (Responded 401 (Body \<lparr>user_name = None, user_email = None\<rparr>))"
    by (simp add: ok_def)
  have g: "failed (FetchRejected :: user_data fetch_outcome)" by simp
  show ?thesis
    using f validateToken_failure_logs_out [OF f, of stale_session "''stale''"]
          validateToken_failure_logs_out [OF g, of stale_session "''stale''"]
    by (simp add: stale_session_def)
qed

text \<open>
  C4. Starting from a mounted player with no live timer, after every prefix of an
  alternating sequence of play and pause calls at most one timer is live; after a pause
  no timer is live, and after a play that resolved exactly one timer is live, the one
  \<open>progressIntervalRef\<close> holds.
\<close>

theorem play_pause_single_timer:
  assumes "alternating cs" and "intervals b = []"
  shows "length (intervals (browser (run (mounted pr b) (take n cs)))) \<le> 1 \<and>
         (0 < n \<and> n \<le> length cs \<longrightarrow>
            (\<not> is_play (cs ! (n - 1)) \<longrightarrow>
               intervals (browser (run (mounted pr b) (take n cs))) = []) \<and>
            (cs ! (n - 1) = Play PlayResolved \<longrightarrow>
               (\<exists>h. h \<noteq> 0 \<and> progressIntervalRef (run (mounted pr b) (take n cs)) = Some h \<and>
                    intervals (browser (run (mounted pr b) (take n cs))) = [h])))"
proof -
  have alt: "alternating (take n cs)" using assms(1) by (rule alternating_take)
  have start: "quiet (mounted pr b) \<or>
      (single (mounted pr b) \<and> (\<forall>x xs. take n cs = x # xs \<longrightarrow> \<not> is_play x))"
    using mounted_quiet [OF assms(2)] by simp
  have m: "audioRef (mounted pr b) \<noteq> None" using mounted_quiet [OF assms(2)] by simp
  note r = run_alternating [OF m alt start]
  have l: "0 < n \<and> n \<le> length cs \<Longrightarrow> take n cs \<noteq> [] \<and> last (take n cs) = cs ! (n - 1)"
    by (cases n) (auto simp: take_Suc_conv_app_nth)
  show ?thesis
    using r l quiet_or_single_length [of "run (mounted pr b) (take n cs)"]
    by (auto simp: quiet_def single_def)
qed

theorem play_pause_single_timer_witness:
  "alternating [Play PlayResolved, Pause FetchRejected, Play PlayResolved] \<and>
   intervals fresh_browser = [] \<and>
   intervals (browser (run (mounted sample_props fresh_browser)
      [Play PlayResolved, Pause FetchRejected, Play PlayResolved])) = [2] \<and>
   intervals (browser (run (mounted sample_props fresh_browser)
      [Play PlayResolved, Pause FetchRejected])) = []"
proof -
  have a: "alternating [Play PlayResolved, Pause FetchRejected, Play PlayResolved]" by simp
  have b: "intervals fresh_browser = []" by (simp add: fresh_browser_def)
  have two: "intervals (browser (run (mounted sample_props fresh_browser)
      [Play PlayResolved, Pause FetchRejected, Play PlayResolved])) = [2]"
    by (simp add: handlePlay_def handlePause_def Let_def mounted_def fresh_browser_def
          setInterval_def clearInterval_def logMedia_def updateProgress_frame)
  show ?thesis
    using a b two play_pause_single_timer [OF a b, where n = 2 and pr = sample_props]
    by simp
qed






end
